theory Spec2Isabelle
  imports Main "HOL-Library.Multiset" "HOL-Library.Char_ord" "HOL-Library.List_Lexorder"
    "HOL-Library.Product_Lexorder" "HOL-Library.Option_ord"
begin

section \<open>Values of the request and of the store\<close>

text \<open>
  The repository holds two servers with the same routes: \<^verbatim>\<open>src/server.js\<close>, which keeps the
  slots in a MongoDB collection (suffix \<open>_db\<close> below), and \<^verbatim>\<open>src/unnamed/part_000\<close>, which
  keeps them in the file \<^verbatim>\<open>data.json\<close> (suffix \<open>_file\<close>).

  A field read from a JSON body or from a header is a string or is absent
  (\<^verbatim>\<open>undefined\<close>): \<open>None\<close> is the absent field.

  A string is the list of its bytes in UTF-8. A JavaScript string may hold a surrogate
  code unit that has no partner; UTF-8 proper has no bytes for it, and it is written here
  as generalised UTF-8 writes it, \<^verbatim>\<open>ED A0..BF 80..BF\<close>. No other character has the
  byte \<^verbatim>\<open>ED\<close> followed by a byte from \<^verbatim>\<open>A0\<close> on.
\<close>

type_synonym field = "string option"

fun lone_surrogate :: "string \<Rightarrow> bool" where
  "lone_surrogate (a # b # cs) =
     (a = CHR 0xED \<and> 0xA0 \<le> (of_char b :: nat) \<or> lone_surrogate (b # cs))"
| "lone_surrogate cs = False"

text \<open>
  A string as the MongoDB driver writes it in a document or in a filter: Node encodes
  the string in UTF-8, and every lone surrogate becomes U+FFFD, \<^verbatim>\<open>EF BF BD\<close>.
\<close>

fun bson :: "string \<Rightarrow> string" where
  "bson (a # b # c # cs) =
     (if a = CHR 0xED \<and> 0xA0 \<le> (of_char b :: nat)
      then CHR 0xEF # CHR 0xBF # CHR 0xBD # bson cs
      else a # bson (b # c # cs))"
| "bson cs = cs"

definition bson_field :: "field \<Rightarrow> field" where
  "bson_field v = map_option bson v"

text \<open>JavaScript truthiness of such a field: \<^verbatim>\<open>undefined\<close> and \<^verbatim>\<open>""\<close> are falsy.\<close>

definition truthy :: "field \<Rightarrow> bool" where
  "truthy v = (case v of None \<Rightarrow> False | Some s \<Rightarrow> s \<noteq> [])"

text \<open>\<^verbatim>\<open>!v\<close>\<close>

definition falsy :: "field \<Rightarrow> bool" where
  "falsy v = (case v of None \<Rightarrow> True | Some s \<Rightarrow> s = [])"

text \<open>Interpolation in a template literal, \<^verbatim>\<open>`${v}`\<close>.\<close>

definition str :: "field \<Rightarrow> string" where
  "str v = (case v of None \<Rightarrow> ''undefined'' | Some s \<Rightarrow> s)"

text \<open>\<^verbatim>\<open>v || undefined\<close> and \<^verbatim>\<open>v || ""\<close>.\<close>

definition or_undefined :: "field \<Rightarrow> field" where
  "or_undefined v = (if truthy v then v else None)"

definition or_empty :: "field \<Rightarrow> field" where
  "or_empty v = (if truthy v then v else Some [])"

record client_rec =
  firstName :: field
  lastName :: field
  email :: field
  service :: field

text \<open>
  A slot as \<^verbatim>\<open>SlotSchema\<close> declares it and as \<^verbatim>\<open>/admin/add-slot\<close> of the file server
  writes it; \<open>client = None\<close> is \<^verbatim>\<open>client: null\<close> (file) or a client never set (database).
\<close>

record slot =
  date :: field
  time :: field
  booked :: bool
  client :: "client_rec option"

text \<open>\<^verbatim>\<open>const { date, time, firstName, lastName, email, service } = req.body\<close>\<close>

record body =
  body_date :: field
  body_time :: field
  body_firstName :: field
  body_lastName :: field
  body_email :: field
  body_service :: field

record config =
  ADMIN_PASSWORD :: string
  FRONTEND_URL :: string
  EMAIL_USER :: string

text \<open>
  The error strings of the responses, by name: \<^verbatim>\<open>"Donn\'ees manquantes"\<close>,
  \<^verbatim>\<open>"Cr\'eneau indisponible"\<close>, \<^verbatim>\<open>"Acc\`es refus\'e"\<close>, \<^verbatim>\<open>"Date/heure manquantes"\<close>,
  \<^verbatim>\<open>"Cr\'eneau d\'ej\`a existant"\<close>, \<^verbatim>\<open>"Erreur Stripe"\<close>, \<^verbatim>\<open>"Erreur calendrier"\<close>,
  \<^verbatim>\<open>"Erreur confirmation"\<close> (accents written TeX-style here).
\<close>

datatype message =
  Donnees_manquantes | Creneau_indisponible | Acces_refuse | Date_heure_manquantes
  | Creneau_deja_existant | Erreur_Stripe | Erreur_calendrier | Erreur_confirmation

text \<open>
  The JSON body of a response: \<^verbatim>\<open>{ success: true }\<close>, \<^verbatim>\<open>{ error: msg }\<close>,
  \<^verbatim>\<open>{ url: session.url }\<close>, or the array of slots. A response is its HTTP status and
  its body.
\<close>

datatype payload = Success | Error message | Url string | Slots "slot list"

type_synonym response = "nat \<times> payload"

text \<open>What \<^verbatim>\<open>console.error\<close> receives.\<close>

datatype log_entry = Stripe_error | Erreur_email

section \<open>The external collaborators\<close>

text \<open>
  The argument of \<^verbatim>\<open>stripe.checkout.sessions.create\<close>. The provider is a function from
  this argument to the session's URL, or \<open>None\<close> when the call rejects.
\<close>

record session_params =
  payment_method_types :: "string list"
  mode :: string
  customer_email :: field
  metadata :: "(string \<times> field) list"
  currency :: string
  unit_amount :: nat
  product_name :: string
  description :: string
  quantity :: nat
  success_url :: string
  cancel_url :: string

text \<open>
  The argument of \<^verbatim>\<open>mailer.sendMail\<close>: sender, recipient, and the values interpolated in
  the HTML template (first name, service, date, time), whose fixed text and the fixed
  subject are left out. The transport is a function from the mail to \<open>True\<close> (sent)
  or \<open>False\<close> (the call rejects).
\<close>

record mail =
  mail_from :: string
  mail_to :: string
  html_values :: "string list"

subsection \<open>\<^verbatim>\<open>encodeURIComponent\<close>\<close>

text \<open>
  Every byte is escaped as \<^verbatim>\<open>%XX\<close> (upper-case hexadecimal) but the letters, the digits and
  \<^verbatim>\<open>- _ . ! ~ * ' ( )\<close>. On a string with a lone surrogate JavaScript throws
  \<^verbatim>\<open>URIError\<close>: that is \<open>None\<close>.
\<close>

definition unreserved :: "char \<Rightarrow> bool" where
  "unreserved c \<longleftrightarrow>
     c \<in> set (''ABCDEFGHIJKLMNOPQRSTUVWXYZabcdefghijklmnopqrstuvwxyz0123456789-_.!~*()''
              @ [CHR 0x27])"

definition hexdigit :: "nat \<Rightarrow> char" where
  "hexdigit n = ''0123456789ABCDEF'' ! (n mod 16)"

definition escape :: "char \<Rightarrow> string" where
  "escape c =
     (if unreserved c then [c]
      else [CHR ''%'', hexdigit (of_char c div 16), hexdigit (of_char c mod 16)])"

definition encodeURIComponent :: "field \<Rightarrow> string option" where
  "encodeURIComponent v =
     (if lone_surrogate (str v) then None else Some (concat (map escape (str v))))"

text \<open>
  A query parameter with its escaped value, and the success URL: \<^verbatim>\<open>/success.html\<close> under
  the front end, followed by its parameters. A value that cannot be escaped leaves no URL.
\<close>

definition escaped :: "string \<Rightarrow> field \<Rightarrow> string option" where
  "escaped name v = map_option (\<lambda>e. name @ e) (encodeURIComponent v)"

definition raw :: "string \<Rightarrow> field \<Rightarrow> string option" where
  "raw name v = Some (name @ str v)"

definition success_page :: "string \<Rightarrow> string option list \<Rightarrow> string option" where
  "success_page front ps = map_option (\<lambda>qs. front @ ''/success.html'' @ concat qs) (those ps)"

section \<open>The slot store\<close>

text \<open>
  The store is the sequence of slots, in the order of \<^verbatim>\<open>data.slots\<close> (file) or of
  insertion in the collection (database). The storage operations are taken to succeed:
  an unreachable database or an unreadable file is outside the model, and so are the
  \<^verbatim>\<open>catch\<close> branches that answer 500 with \<^verbatim>\<open>"Erreur calendrier"\<close> and
  \<^verbatim>\<open>"Erreur confirmation"\<close>.
\<close>

text \<open>\<^verbatim>\<open>s.date === date && s.time === time\<close>\<close>

definition matches :: "field \<Rightarrow> field \<Rightarrow> slot \<Rightarrow> bool" where
  "matches d t s \<longleftrightarrow> date s = d \<and> time s = t"

text \<open>The filter \<^verbatim>\<open>{ date, time }\<close> of the database server, as the driver sends it.\<close>

definition matches_db :: "field \<Rightarrow> field \<Rightarrow> slot \<Rightarrow> bool" where
  "matches_db d t = matches (bson_field d) (bson_field t)"

text \<open>
  The position of the first element that satisfies \<open>P\<close>. \<^verbatim>\<open>data.slots.find\<close> returns a
  reference to that element, and \<^verbatim>\<open>Slot.findOne\<close> a document that \<^verbatim>\<open>save()\<close> writes back
  to the same place: the position stands for both.
\<close>

fun find_pos :: "('a \<Rightarrow> bool) \<Rightarrow> 'a list \<Rightarrow> nat option" where
  "find_pos P [] = None"
| "find_pos P (x # xs) = (if P x then Some 0 else map_option Suc (find_pos P xs))"

definition findSlot :: "field \<Rightarrow> field \<Rightarrow> slot list \<Rightarrow> slot option" where
  "findSlot d t slots = map_option (\<lambda>i. slots ! i) (find_pos (matches d t) slots)"

definition slot_key :: "slot \<Rightarrow> field \<times> field" where
  "slot_key s = (date s, time s)"

text \<open>\<^verbatim>\<open>{ date, time, booked: false, client: null }\<close>\<close>

definition new_slot :: "field \<Rightarrow> field \<Rightarrow> slot" where
  "new_slot d t = \<lparr>date = d, time = t, booked = False, client = None\<rparr>"

text \<open>
  \<^verbatim>\<open>slot.booked = true; slot.client = { firstName, lastName, email, service }\<close>, and then
  the write.

  The file server writes the object as it is: \<^verbatim>\<open>JSON.stringify\<close> leaves out the fields
  that are \<^verbatim>\<open>undefined\<close> and keeps the object, were it empty.

  In the database server \<^verbatim>\<open>client\<close> is a nested path of \<^verbatim>\<open>SlotSchema\<close>, not a document of
  its own: \<^verbatim>\<open>save()\<close> writes the fields that have a value, and when none of the four has
  one the saved document has no client. The strings are saved as the driver writes them.
\<close>

definition client_of :: "body \<Rightarrow> client_rec" where
  "client_of b =
     \<lparr>firstName = body_firstName b, lastName = body_lastName b,
      email = body_email b, service = body_service b\<rparr>"

definition book_file :: "body \<Rightarrow> slot \<Rightarrow> slot" where
  "book_file b s = s\<lparr>booked := True, client := Some (client_of b)\<rparr>"

definition saved_client :: "body \<Rightarrow> client_rec option" where
  "saved_client b =
     (if body_firstName b = None \<and> body_lastName b = None \<and> body_email b = None
         \<and> body_service b = None
      then None
      else Some \<lparr>firstName = bson_field (body_firstName b),
                  lastName = bson_field (body_lastName b),
                  email = bson_field (body_email b),
                  service = bson_field (body_service b)\<rparr>)"

definition book :: "body \<Rightarrow> slot \<Rightarrow> slot" where
  "book b s = s\<lparr>booked := True, client := saved_client b\<rparr>"

text \<open>
  \<^verbatim>\<open>Slot.create({ date, time })\<close> under the unique index on \<^verbatim>\<open>{ date: 1, time: 1 }\<close>:
  \<open>None\<close> is the duplicate-key rejection.
\<close>

definition create :: "field \<Rightarrow> field \<Rightarrow> slot list \<Rightarrow> slot list option" where
  "create d t coll =
     (if find_pos (matches_db d t) coll = None
      then Some (coll @ [new_slot (bson_field d) (bson_field t)]) else None)"

text \<open>\<^verbatim>\<open>Slot.deleteOne({ date, time })\<close>: the first matching document goes.\<close>

fun deleteOne :: "('a \<Rightarrow> bool) \<Rightarrow> 'a list \<Rightarrow> 'a list" where
  "deleteOne P [] = []"
| "deleteOne P (x # xs) = (if P x then xs else x # deleteOne P xs)"

text \<open>\<^verbatim>\<open>Slot.find().sort({ date: 1, time: 1 })\<close>: by date, then by time, bytewise.\<close>

definition find_sorted :: "slot list \<Rightarrow> slot list" where
  "find_sorted coll = sort_key slot_key coll"

section \<open>What a request does\<close>

text \<open>
  The outcome of one request: the response, the store afterwards, the calls made to
  \<^verbatim>\<open>stripe.checkout.sessions.create\<close> and to \<^verbatim>\<open>mailer.sendMail\<close>, and what was logged.
\<close>

record outcome =
  answer :: response
  stored :: "slot list"
  sessions :: "session_params list"
  mails :: "mail list"
  logged :: "log_entry list"

definition reply :: "response \<Rightarrow> slot list \<Rightarrow> outcome" where
  "reply r slots = \<lparr>answer = r, stored = slots, sessions = [], mails = [], logged = []\<rparr>"

text \<open>
  \<^verbatim>\<open>if (email) { try { await mailer.sendMail(m) } catch (e) { console.error(...) } }\<close>:
  the mails submitted and the errors logged.
\<close>

definition notify :: "(mail \<Rightarrow> bool) \<Rightarrow> mail \<Rightarrow> field \<Rightarrow> mail list \<times> log_entry list" where
  "notify mailer m em =
     (if truthy em then ([m], if mailer m then [] else [Erreur_email]) else ([], []))"

definition confirmation_mail :: "string \<Rightarrow> body \<Rightarrow> mail" where
  "confirmation_mail sender b =
     \<lparr>mail_from = sender, mail_to = str (body_email b),
      html_values = [str (body_firstName b), str (body_service b),
                     str (body_date b), str (body_time b)]\<rparr>"

text \<open>\<^verbatim>\<open>`${service} | ${date} \`a ${time}`\<close>, the accented letter as its two UTF-8 bytes.\<close>

definition describe :: "body \<Rightarrow> string" where
  "describe b =
     str (body_service b) @ '' | '' @ str (body_date b) @ '' '' @ [CHR 0xC3, CHR 0xA0]
       @ '' '' @ str (body_time b)"

text \<open>The dash of the product names, U+2014, as its three UTF-8 bytes.\<close>

definition em_dash :: string where
  "em_dash = [CHR 0xE2, CHR 0x80, CHR 0x94]"

subsection \<open>The database server, \<^verbatim>\<open>src/server.js\<close>\<close>

definition calendar_db :: "slot list \<Rightarrow> outcome" where
  "calendar_db coll = reply (200, Slots (find_sorted coll)) coll"

text \<open>
  The argument of the provider's call. It is built inside the \<^verbatim>\<open>try\<close>, and there is
  none when a value of the success URL cannot be escaped.
\<close>

definition checkout_params_db :: "config \<Rightarrow> body \<Rightarrow> session_params option" where
  "checkout_params_db cfg b =
     map_option
       (\<lambda>u. \<lparr>payment_method_types = [''card''], mode = ''payment'',
             customer_email = or_undefined (body_email b),
             metadata = [(''date'', body_date b), (''time'', body_time b),
                         (''service'', body_service b), (''firstName'', body_firstName b),
                         (''lastName'', body_lastName b)],
             currency = ''eur'', unit_amount = 1000,
             product_name = ''Acompte '' @ em_dash @ '' Maison Cilia'',
             description = describe b, quantity = 1,
             success_url = u,
             cancel_url = FRONTEND_URL cfg @ ''/booking.html''\<rparr>)
       (success_page (FRONTEND_URL cfg)
          [escaped ''?date='' (body_date b),
           escaped ''&time='' (body_time b),
           escaped ''&service='' (body_service b),
           escaped ''&firstName='' (body_firstName b),
           escaped ''&lastName='' (body_lastName b),
           escaped ''&email='' (or_empty (body_email b))])"

text \<open>
  The \<^verbatim>\<open>try\<close> around the provider's call, shared by both servers: an argument that could
  not be built and a call that rejects are caught alike, logged and answered 500; the
  provider is called in the second case only.
\<close>

definition ask_stripe ::
  "(session_params \<Rightarrow> string option) \<Rightarrow> session_params option \<Rightarrow> slot list \<Rightarrow> outcome" where
  "ask_stripe stripe arg slots =
     (case arg of
        None \<Rightarrow> \<lparr>answer = (500, Error Erreur_Stripe), stored = slots, sessions = [],
                 mails = [], logged = [Stripe_error]\<rparr>
      | Some p \<Rightarrow>
          (case stripe p of
             Some u \<Rightarrow> \<lparr>answer = (200, Url u), stored = slots, sessions = [p], mails = [],
                        logged = []\<rparr>
           | None \<Rightarrow> \<lparr>answer = (500, Error Erreur_Stripe), stored = slots, sessions = [p],
                      mails = [], logged = [Stripe_error]\<rparr>))"

definition create_checkout_db ::
  "(session_params \<Rightarrow> string option) \<Rightarrow> config \<Rightarrow> body \<Rightarrow> slot list \<Rightarrow> outcome" where
  "create_checkout_db stripe cfg b coll =
     (if falsy (body_date b) \<or> falsy (body_time b) \<or> falsy (body_firstName b)
         \<or> falsy (body_lastName b) \<or> falsy (body_service b)
      then reply (400, Error Donnees_manquantes) coll
      else ask_stripe stripe (checkout_params_db cfg b) coll)"

definition confirm_db :: "(mail \<Rightarrow> bool) \<Rightarrow> config \<Rightarrow> body \<Rightarrow> slot list \<Rightarrow> outcome" where
  "confirm_db mailer cfg b coll =
     (case find_pos (matches_db (body_date b) (body_time b)) coll of
        None \<Rightarrow> reply (400, Error Creneau_indisponible) coll
      | Some i \<Rightarrow>
          if booked (coll ! i) then reply (400, Error Creneau_indisponible) coll
          else
            let sent = notify mailer
                  (confirmation_mail (''Maison Cilia <'' @ EMAIL_USER cfg @ ''>'') b)
                  (body_email b)
            in \<lparr>answer = (200, Success), stored = coll[i := book b (coll ! i)],
                sessions = [], mails = fst sent, logged = snd sent\<rparr>)"

definition admin_reservations_db :: "config \<Rightarrow> field \<Rightarrow> slot list \<Rightarrow> outcome" where
  "admin_reservations_db cfg authorization coll =
     (if authorization \<noteq> Some (ADMIN_PASSWORD cfg) then reply (401, Error Acces_refuse) coll
      else reply (200, Slots (find_sorted coll)) coll)"

definition add_slot_db :: "config \<Rightarrow> field \<Rightarrow> body \<Rightarrow> slot list \<Rightarrow> outcome" where
  "add_slot_db cfg authorization b coll =
     (if authorization \<noteq> Some (ADMIN_PASSWORD cfg) then reply (401, Error Acces_refuse) coll
      else if falsy (body_date b) \<or> falsy (body_time b)
      then reply (400, Error Date_heure_manquantes) coll
      else
        (case create (body_date b) (body_time b) coll of
           Some coll' \<Rightarrow> reply (200, Success) coll'
         | None \<Rightarrow> reply (400, Error Creneau_deja_existant) coll))"

definition delete_slot_db :: "config \<Rightarrow> field \<Rightarrow> body \<Rightarrow> slot list \<Rightarrow> outcome" where
  "delete_slot_db cfg authorization b coll =
     (if authorization \<noteq> Some (ADMIN_PASSWORD cfg) then reply (401, Error Acces_refuse) coll
      else reply (200, Success) (deleteOne (matches_db (body_date b) (body_time b)) coll))"

subsection \<open>The file server, \<^verbatim>\<open>src/unnamed/part_000\<close>\<close>

definition calendar_file :: "slot list \<Rightarrow> outcome" where
  "calendar_file slots = reply (200, Slots slots) slots"

definition checkout_params_file :: "config \<Rightarrow> body \<Rightarrow> session_params option" where
  "checkout_params_file cfg b =
     map_option
       (\<lambda>u. \<lparr>payment_method_types = [''card''], mode = ''payment'',
             customer_email = or_undefined (body_email b),
             metadata = [(''firstName'', body_firstName b), (''lastName'', body_lastName b),
                         (''service'', body_service b), (''date'', body_date b),
                         (''time'', body_time b)],
             currency = ''eur'', unit_amount = 1000,
             product_name = ''Acompte rendez-vous '' @ em_dash @ '' Maison Cilia'',
             description = describe b, quantity = 1,
             success_url = u,
             cancel_url = FRONTEND_URL cfg @ ''/booking.html''\<rparr>)
       (success_page (FRONTEND_URL cfg)
          [raw ''?date='' (body_date b),
           raw ''&time='' (body_time b),
           escaped ''&service='' (body_service b),
           raw ''&firstName='' (body_firstName b),
           raw ''&lastName='' (body_lastName b),
           raw ''&email='' (or_empty (body_email b))])"

definition create_checkout_file ::
  "(session_params \<Rightarrow> string option) \<Rightarrow> config \<Rightarrow> body \<Rightarrow> slot list \<Rightarrow> outcome" where
  "create_checkout_file stripe cfg b slots =
     ask_stripe stripe (checkout_params_file cfg b) slots"

definition confirm_file :: "(mail \<Rightarrow> bool) \<Rightarrow> body \<Rightarrow> slot list \<Rightarrow> outcome" where
  "confirm_file mailer b slots =
     (case find_pos (matches (body_date b) (body_time b)) slots of
        None \<Rightarrow> reply (400, Error Creneau_indisponible) slots
      | Some i \<Rightarrow>
          if booked (slots ! i) then reply (400, Error Creneau_indisponible) slots
          else
            let sent = notify mailer
                  (confirmation_mail ''Maison Cilia <contact@maisoncilia.com>'' b)
                  (body_email b)
            in \<lparr>answer = (200, Success), stored = slots[i := book_file b (slots ! i)],
                sessions = [], mails = fst sent, logged = snd sent\<rparr>)"

definition admin_reservations_file :: "config \<Rightarrow> field \<Rightarrow> slot list \<Rightarrow> outcome" where
  "admin_reservations_file cfg authorization slots =
     (if authorization \<noteq> Some (ADMIN_PASSWORD cfg) then reply (401, Error Acces_refuse) slots
      else reply (200, Slots slots) slots)"

definition add_slot_file :: "config \<Rightarrow> field \<Rightarrow> body \<Rightarrow> slot list \<Rightarrow> outcome" where
  "add_slot_file cfg authorization b slots =
     (if authorization \<noteq> Some (ADMIN_PASSWORD cfg) then reply (401, Error Acces_refuse) slots
      else reply (200, Success) (slots @ [new_slot (body_date b) (body_time b)]))"

definition delete_slot_file :: "config \<Rightarrow> field \<Rightarrow> body \<Rightarrow> slot list \<Rightarrow> outcome" where
  "delete_slot_file cfg authorization b slots =
     (if authorization \<noteq> Some (ADMIN_PASSWORD cfg) then reply (401, Error Acces_refuse) slots
      else reply (200, Success)
             (filter (\<lambda>s. \<not> matches (body_date b) (body_time b) s) slots))"

subsection \<open>The routes\<close>

datatype request =
  Get_calendar
  | Post_create_checkout body
  | Post_confirm body
  | Get_admin_reservations field
  | Post_admin_add_slot field body
  | Post_admin_delete_slot field body

fun handle_db ::
  "(session_params \<Rightarrow> string option) \<Rightarrow> (mail \<Rightarrow> bool) \<Rightarrow> config \<Rightarrow> request
     \<Rightarrow> slot list \<Rightarrow> outcome" where
  "handle_db stripe mailer cfg Get_calendar coll = calendar_db coll"
| "handle_db stripe mailer cfg (Post_create_checkout b) coll =
     create_checkout_db stripe cfg b coll"
| "handle_db stripe mailer cfg (Post_confirm b) coll = confirm_db mailer cfg b coll"
| "handle_db stripe mailer cfg (Get_admin_reservations a) coll =
     admin_reservations_db cfg a coll"
| "handle_db stripe mailer cfg (Post_admin_add_slot a b) coll = add_slot_db cfg a b coll"
| "handle_db stripe mailer cfg (Post_admin_delete_slot a b) coll =
     delete_slot_db cfg a b coll"

fun handle_file ::
  "(session_params \<Rightarrow> string option) \<Rightarrow> (mail \<Rightarrow> bool) \<Rightarrow> config \<Rightarrow> request
     \<Rightarrow> slot list \<Rightarrow> outcome" where
  "handle_file stripe mailer cfg Get_calendar slots = calendar_file slots"
| "handle_file stripe mailer cfg (Post_create_checkout b) slots =
     create_checkout_file stripe cfg b slots"
| "handle_file stripe mailer cfg (Post_confirm b) slots = confirm_file mailer b slots"
| "handle_file stripe mailer cfg (Get_admin_reservations a) slots =
     admin_reservations_file cfg a slots"
| "handle_file stripe mailer cfg (Post_admin_add_slot a b) slots =
     add_slot_file cfg a b slots"
| "handle_file stripe mailer cfg (Post_admin_delete_slot a b) slots =
     delete_slot_file cfg a b slots"

text \<open>Requests served one after the other: the store after the last one.\<close>

fun serve :: "(request \<Rightarrow> slot list \<Rightarrow> outcome) \<Rightarrow> request list \<Rightarrow> slot list \<Rightarrow> slot list" where
  "serve h [] slots = slots"
| "serve h (r # rs) slots = serve h rs (stored (h r slots))"

section \<open>The invariant of the data model\<close>

text \<open>Every stored slot is booked exactly when it carries a client.\<close>

definition booked_iff_client :: "slot list \<Rightarrow> bool" where
  "booked_iff_client slots = list_all (\<lambda>s. booked s \<longleftrightarrow> client s \<noteq> None) slots"

section \<open>Requests in flight together\<close>

text \<open>
  A handler runs without interruption from one \<^verbatim>\<open>await\<close> to the next, and other requests
  run while it waits. A \<^verbatim>\<open>/confirm\<close> request is therefore a job that advances in steps:

  \<^item> database server: \<^verbatim>\<open>await Slot.findOne\<close>, then the test and the two assignments on
    the document it got; \<^verbatim>\<open>await slot.save()\<close>, which writes that document back;
    \<^verbatim>\<open>await mailer.sendMail\<close> when there is an email; the response.
  \<^item> file server: \<^verbatim>\<open>readData\<close>, the test, the assignments and \<^verbatim>\<open>writeData\<close> in one step,
    since they are synchronous; \<^verbatim>\<open>await mailer.sendMail\<close> when there is an email; the
    response.

  The mail does not change the response, so the transport is not part of a job.
\<close>

datatype job = Finding body | Saving body nat slot | Mailing body | Answered response

fun step_confirm_db :: "job \<Rightarrow> slot list \<Rightarrow> job \<times> slot list" where
  "step_confirm_db (Finding b) coll =
     (case find_pos (matches_db (body_date b) (body_time b)) coll of
        None \<Rightarrow> (Answered (400, Error Creneau_indisponible), coll)
      | Some i \<Rightarrow>
          if booked (coll ! i) then (Answered (400, Error Creneau_indisponible), coll)
          else (Saving b i (book b (coll ! i)), coll))"
| "step_confirm_db (Saving b i s) coll =
     (if truthy (body_email b) then Mailing b else Answered (200, Success), coll[i := s])"
| "step_confirm_db (Mailing b) coll = (Answered (200, Success), coll)"
| "step_confirm_db (Answered r) coll = (Answered r, coll)"

fun step_confirm_file :: "job \<Rightarrow> slot list \<Rightarrow> job \<times> slot list" where
  "step_confirm_file (Finding b) slots =
     (case find_pos (matches (body_date b) (body_time b)) slots of
        None \<Rightarrow> (Answered (400, Error Creneau_indisponible), slots)
      | Some i \<Rightarrow>
          if booked (slots ! i) then (Answered (400, Error Creneau_indisponible), slots)
          else (if truthy (body_email b) then Mailing b else Answered (200, Success),
                slots[i := book_file b (slots ! i)]))"
| "step_confirm_file (Saving b i s) slots = (Saving b i s, slots)"
| "step_confirm_file (Mailing b) slots = (Answered (200, Success), slots)"
| "step_confirm_file (Answered r) slots = (Answered r, slots)"

text \<open>
  A schedule names, step after step, the job that advances; a number that names no
  job is skipped.
\<close>

fun interleave ::
  "(job \<Rightarrow> slot list \<Rightarrow> job \<times> slot list) \<Rightarrow> nat list \<Rightarrow> job list \<times> slot list
     \<Rightarrow> job list \<times> slot list" where
  "interleave step [] st = st"
| "interleave step (k # ks) (jobs, slots) =
     (if k < length jobs
      then interleave step ks
             (jobs[k := fst (step (jobs ! k) slots)], snd (step (jobs ! k) slots))
      else interleave step ks (jobs, slots))"

text \<open>The number of requests answered 200 \<^verbatim>\<open>{ success: true }\<close>.\<close>

definition successes :: "job list \<Rightarrow> nat" where
  "successes jobs = length (filter (\<lambda>x. x = Answered (200, Success)) jobs)"

text \<open>
  The states of a \<^verbatim>\<open>/confirm\<close> job of the file server, for requests on the key
  \<open>(d, t)\<close>: not yet started; past its write, so that it will be or has been answered
  200; answered 400.
\<close>

definition asks :: "field \<Rightarrow> field \<Rightarrow> job \<Rightarrow> bool" where
  "asks d t x = (case x of Finding b \<Rightarrow> body_date b = d \<and> body_time b = t | _ \<Rightarrow> False)"

definition winner :: "job \<Rightarrow> bool" where
  "winner x = (case x of Mailing b \<Rightarrow> True | Answered r \<Rightarrow> r = (200, Success) | _ \<Rightarrow> False)"

definition refused :: "job \<Rightarrow> bool" where
  "refused x \<longleftrightarrow> x = Answered (400, Error Creneau_indisponible)"

definition answered :: "job \<Rightarrow> bool" where
  "answered x = (case x of Answered r \<Rightarrow> True | _ \<Rightarrow> False)"

text \<open>
  What holds of the file server while such requests are in flight: the key has its slot,
  and either the slot is free and no request has started, or it is booked and one request
  is past its write.
\<close>

definition one_winner :: "field \<Rightarrow> field \<Rightarrow> job list \<times> slot list \<Rightarrow> bool" where
  "one_winner d t st =
     (case find_pos (matches d t) (snd st) of
        None \<Rightarrow> False
      | Some i \<Rightarrow>
          list_all (\<lambda>x. asks d t x \<or> winner x \<or> refused x) (fst st)
          \<and> (if booked (snd st ! i) then length (filter winner (fst st)) = 1
              else list_all (asks d t) (fst st)))"

section \<open>Sample values\<close>

text \<open>The reservation of the spec's scenario A, and a configuration.\<close>

definition ana :: body where
  "ana = \<lparr>body_date = Some ''2024-05-01'', body_time = Some ''10:00'',
          body_firstName = Some ''Ana'', body_lastName = Some ''B'',
          body_email = Some ''a@b.com'', body_service = Some ''Manicure''\<rparr>"

definition cfg0 :: config where
  "cfg0 = \<lparr>ADMIN_PASSWORD = ''Maha123@'', FRONTEND_URL = ''http://localhost:5500'',
           EMAIL_USER = ''contact@maisoncilia.com''\<rparr>"

definition slot0 :: slot where
  "slot0 = new_slot (Some ''2024-05-01'') (Some ''10:00'')"

text \<open>A second client for the same slot, and a second slot one day later.\<close>

definition bob :: body where
  "bob = \<lparr>body_date = Some ''2024-05-01'', body_time = Some ''10:00'',
          body_firstName = Some ''Bob'', body_lastName = Some ''C'',
          body_email = Some ''b@c.com'', body_service = Some ''Pedicure''\<rparr>"

definition slot1 :: slot where
  "slot1 = new_slot (Some ''2024-05-02'') (Some ''10:00'')"

text \<open>A request whose values need escaping in a URL, an empty body, and a provider that
  always opens a session.\<close>

definition anne :: body where
  "anne = \<lparr>body_date = Some ''2024-05-01'', body_time = Some ''10:00'',
           body_firstName = Some ''Anne Marie'', body_lastName = Some ''B&C'',
           body_email = Some ''a+b@c.com'', body_service = Some ''Manicure & Spa''\<rparr>"

definition no_fields :: body where
  "no_fields = \<lparr>body_date = None, body_time = None, body_firstName = None,
                body_lastName = None, body_email = None, body_service = None\<rparr>"

text \<open>
  A request with a date and a time and nothing else, and the request of scenario A with
  a first name that is one lone surrogate, U+D800.
\<close>

definition anon :: body where
  "anon = \<lparr>body_date = Some ''2024-05-01'', body_time = Some ''10:00'',
           body_firstName = None, body_lastName = None, body_email = None,
           body_service = None\<rparr>"

definition lone :: body where
  "lone = \<lparr>body_date = Some ''2024-05-01'', body_time = Some ''10:00'',
           body_firstName = Some [CHR 0xED, CHR 0xA0, CHR 0x80], body_lastName = Some ''B'',
           body_email = Some ''a@b.com'', body_service = Some ''Manicure''\<rparr>"

definition stripe_ok :: "session_params \<Rightarrow> string option" where
  "stripe_ok p = Some ''https://checkout.stripe.com/c/pay/cs_test''"

section \<open>Lookup\<close>

lemma find_pos_Some:
  "find_pos P xs = Some i \<Longrightarrow> i < length xs \<and> P (xs ! i) \<and> (\<forall>j<i. \<not> P (xs ! j))"
proof (induction xs arbitrary: i)
  case Nil
  then show ?case by simp
next
  case (Cons x xs)
  show ?case
  proof (cases "P x")
    case True
    with Cons.prems show ?thesis by simp
  next
    case False
    with Cons.prems obtain k where k: "find_pos P xs = Some k" "i = Suc k"
      by auto
    from Cons.IH [OF k(1)] False k(2) show ?thesis
      by (auto simp: nth_Cons split: nat.splits)
  qed
qed

lemma find_pos_None: "find_pos P xs = None \<longleftrightarrow> (\<forall>x\<in>set xs. \<not> P x)"
  by (induction xs) auto

lemma find_pos_update:
  "find_pos P xs = Some i \<Longrightarrow> P y \<Longrightarrow> find_pos P (xs[i := y]) = Some i"
proof (induction xs arbitrary: i)
  case Nil
  then show ?case by simp
next
  case (Cons x xs)
  then show ?case by (cases "P x") (auto split: nat.splits)
qed

text \<open>A string without lone surrogate is written as it is.\<close>

lemma bson_well_formed: "\<not> lone_surrogate s \<Longrightarrow> bson s = s"
  by (induction s rule: bson.induct) auto

lemma bson_ascii:
  "bson ''2024-05-01'' = ''2024-05-01''" "bson ''10:00'' = ''10:00''"
  "bson ''2024-05-02'' = ''2024-05-02''"
  by (simp_all add: bson_well_formed)

lemma bson_lone: "bson [CHR 0xED, CHR 0xA0, CHR 0x80] = [CHR 0xEF, CHR 0xBF, CHR 0xBD]"
  by simp

lemma find_pos_ana: "find_pos (matches (body_date ana) (body_time ana)) [slot0] = Some 0"
  by (simp add: ana_def matches_def new_slot_def slot0_def)

lemma find_pos_db_ana: "find_pos (matches_db (body_date ana) (body_time ana)) [slot0] = Some 0"
  by (simp add: ana_def matches_db_def matches_def new_slot_def slot0_def bson_field_def
      bson_ascii)

lemma book_ana:
  "book ana slot0 = slot0\<lparr>booked := True,
      client := Some \<lparr>firstName = Some ''Ana'', lastName = Some ''B'',
        email = Some ''a@b.com'', service = Some ''Manicure''\<rparr>\<rparr>"
  "book_file ana slot0 = book ana slot0"
  by (simp_all add: book_def book_file_def saved_client_def client_of_def ana_def
      bson_field_def bson_well_formed)

lemma book_bob:
  "book bob slot0 = slot0\<lparr>booked := True,
      client := Some \<lparr>firstName = Some ''Bob'', lastName = Some ''C'',
        email = Some ''b@c.com'', service = Some ''Pedicure''\<rparr>\<rparr>"
  "book_file bob slot0 = book bob slot0"
  by (simp_all add: book_def book_file_def saved_client_def client_of_def bob_def
      bson_field_def bson_well_formed)

section \<open>Confirmation and its notification\<close>

text \<open>
  Claim C9. Once the slot is found free, so that \<^verbatim>\<open>/confirm\<close> persists the transition,
  the response is 200 \<^verbatim>\<open>{ success: true }\<close> and the store holds the booked slot whatever
  the mail transport does. No mail is submitted when the email is absent or empty; a
  mail that the transport rejects leaves one logged error and nothing else. Both servers,
  each with its own lookup and its own write.
\<close>

theorem confirm_notification_best_effort:
  "(find_pos (matches_db (body_date b) (body_time b)) slots = Some i \<and> \<not> booked (slots ! i)
      \<longrightarrow>
      answer (confirm_db mailer cfg b slots) = (200, Success)
      \<and> stored (confirm_db mailer cfg b slots) = slots[i := book b (slots ! i)]
      \<and> logged (confirm_db mailer cfg b slots) =
          (if truthy (body_email b)
              \<and> \<not> mailer (confirmation_mail (''Maison Cilia <'' @ EMAIL_USER cfg @ ''>'') b)
           then [Erreur_email] else [])
      \<and> mails (confirm_db mailer cfg b slots) =
          (if truthy (body_email b)
           then [confirmation_mail (''Maison Cilia <'' @ EMAIL_USER cfg @ ''>'') b] else []))
    \<and> (find_pos (matches (body_date b) (body_time b)) slots = Some i \<and> \<not> booked (slots ! i)
      \<longrightarrow>
      answer (confirm_file mailer b slots) = (200, Success)
      \<and> stored (confirm_file mailer b slots) = slots[i := book_file b (slots ! i)]
      \<and> logged (confirm_file mailer b slots) =
          (if truthy (body_email b)
              \<and> \<not> mailer (confirmation_mail ''Maison Cilia <contact@maisoncilia.com>'' b)
           then [Erreur_email] else [])
      \<and> mails (confirm_file mailer b slots) =
          (if truthy (body_email b)
           then [confirmation_mail ''Maison Cilia <contact@maisoncilia.com>'' b] else []))"
  by (simp add: confirm_db_def confirm_file_def notify_def Let_def)

theorem confirm_notification_best_effort_witness:
  "answer (confirm_db (\<lambda>m. False) cfg0 ana [slot0]) = (200, Success)
   \<and> logged (confirm_db (\<lambda>m. False) cfg0 ana [slot0]) = [Erreur_email]
   \<and> stored (confirm_db (\<lambda>m. False) cfg0 ana [slot0]) = [book ana slot0]
   \<and> stored (confirm_file (\<lambda>m. False) ana [slot0]) = [book_file ana slot0]
   \<and> answer (confirm_file (\<lambda>m. False) (ana\<lparr>body_email := Some []\<rparr>) [slot0])
       = (200, Success)
   \<and> mails (confirm_file (\<lambda>m. False) (ana\<lparr>body_email := Some []\<rparr>) [slot0]) = []"
proof -
  have d: "find_pos (matches_db (body_date ana) (body_time ana)) [slot0] = Some 0
      \<and> \<not> booked ([slot0] ! 0)"
    using find_pos_db_ana by (simp add: slot0_def new_slot_def)
  have f: "find_pos (matches (body_date ana) (body_time ana)) [slot0] = Some 0
      \<and> \<not> booked ([slot0] ! 0)"
    using find_pos_ana by (simp add: slot0_def new_slot_def)
  have e: "find_pos (matches (body_date (ana\<lparr>body_email := Some []\<rparr>))
        (body_time (ana\<lparr>body_email := Some []\<rparr>))) [slot0] = Some 0 \<and> \<not> booked ([slot0] ! 0)"
    using f by simp
  have t: "truthy (body_email ana)" "\<not> truthy (body_email (ana\<lparr>body_email := Some []\<rparr>))"
    by (simp_all add: truthy_def ana_def)
  from confirm_notification_best_effort [of ana "[slot0]" 0 "\<lambda>m. False" cfg0] d f t(1)
    confirm_notification_best_effort
      [of "ana\<lparr>body_email := Some []\<rparr>" "[slot0]" 0 "\<lambda>m. False" cfg0] e t(2)
  show ?thesis by simp
qed

section \<open>Confirming a reservation\<close>

lemma findSlot_Some:
  "findSlot d t slots = Some s \<longleftrightarrow>
     (\<exists>i. find_pos (matches d t) slots = Some i \<and> slots ! i = s)"
  by (auto simp: findSlot_def)

lemma findSlot_None: "findSlot d t slots = None \<longleftrightarrow> (\<forall>s\<in>set slots. \<not> matches d t s)"
  by (simp add: findSlot_def find_pos_None)

text \<open>When the keys are distinct, the slot found is any stored slot with the key.\<close>

lemma findSlot_unique:
  assumes "distinct (map slot_key slots)"
  shows "findSlot d t slots = Some s \<longleftrightarrow> s \<in> set slots \<and> matches d t s"
proof
  assume "findSlot d t slots = Some s"
  then obtain i where "find_pos (matches d t) slots = Some i" "slots ! i = s"
    by (auto simp: findSlot_Some)
  with find_pos_Some [of "matches d t" slots i] show "s \<in> set slots \<and> matches d t s"
    by auto
next
  assume s: "s \<in> set slots \<and> matches d t s"
  then have "find_pos (matches d t) slots \<noteq> None"
    by (auto simp: find_pos_None)
  then obtain i where i: "find_pos (matches d t) slots = Some i" by auto
  from find_pos_Some [OF i] have m: "i < length slots" "matches d t (slots ! i)" by auto
  from s m have "slot_key (slots ! i) = slot_key s"
    by (simp add: matches_def slot_key_def)
  moreover from s obtain j where j: "j < length slots" "slots ! j = s"
    by (auto simp: in_set_conv_nth)
  ultimately have "map slot_key slots ! i = map slot_key slots ! j"
    using m(1) by simp
  moreover have "i < length (map slot_key slots)" "j < length (map slot_key slots)"
    using m(1) j(1) by simp_all
  ultimately have "i = j"
    using nth_eq_iff_index_eq [OF assms] by blast
  with i j show "findSlot d t slots = Some s"
    by (simp add: findSlot_def)
qed

text \<open>
  What \<^verbatim>\<open>/confirm\<close> does, in both servers. A slot found free: 200, and the store differs
  at that slot alone, which is booked. No slot found, or a booked one: the same 400, the
  store as it was, no mail. A second request on the key of a slot just booked is refused.
\<close>

lemma confirm_free:
  "find_pos (matches_db (body_date b) (body_time b)) coll = Some i \<Longrightarrow> \<not> booked (coll ! i) \<Longrightarrow>
     answer (confirm_db mailer cfg b coll) = (200, Success)
     \<and> stored (confirm_db mailer cfg b coll) = coll[i := book b (coll ! i)]"
  "find_pos (matches (body_date b) (body_time b)) slots = Some i \<Longrightarrow> \<not> booked (slots ! i) \<Longrightarrow>
     answer (confirm_file mailer b slots) = (200, Success)
     \<and> stored (confirm_file mailer b slots) = slots[i := book_file b (slots ! i)]"
  by (simp_all add: confirm_db_def confirm_file_def Let_def)

lemma confirm_db_refused:
  assumes "find_pos (matches_db (body_date b) (body_time b)) coll = None
     \<or> (\<exists>i. find_pos (matches_db (body_date b) (body_time b)) coll = Some i \<and> booked (coll ! i))"
  shows "answer (confirm_db mailer cfg b coll) = (400, Error Creneau_indisponible)
     \<and> stored (confirm_db mailer cfg b coll) = coll
     \<and> mails (confirm_db mailer cfg b coll) = [] \<and> logged (confirm_db mailer cfg b coll) = []"
  using assms by (auto simp: confirm_db_def reply_def)

lemma confirm_file_refused:
  assumes "find_pos (matches (body_date b) (body_time b)) slots = None
     \<or> (\<exists>i. find_pos (matches (body_date b) (body_time b)) slots = Some i \<and> booked (slots ! i))"
  shows "answer (confirm_file mailer b slots) = (400, Error Creneau_indisponible)
     \<and> stored (confirm_file mailer b slots) = slots
     \<and> mails (confirm_file mailer b slots) = [] \<and> logged (confirm_file mailer b slots) = []"
  using assms by (auto simp: confirm_file_def reply_def)

lemma find_pos_booked:
  assumes "find_pos (matches d t) slots = Some i"
  shows "find_pos (matches d t) (slots[i := book b (slots ! i)]) = Some i"
    and "booked ((slots[i := book b (slots ! i)]) ! i)"
    and "find_pos (matches d t) (slots[i := book_file b (slots ! i)]) = Some i"
    and "booked ((slots[i := book_file b (slots ! i)]) ! i)"
proof -
  from find_pos_Some [OF assms] have i: "i < length slots" "matches d t (slots ! i)"
    by auto
  then have "matches d t (book b (slots ! i))" "matches d t (book_file b (slots ! i))"
    by (simp_all add: matches_def book_def book_file_def)
  with assms show "find_pos (matches d t) (slots[i := book b (slots ! i)]) = Some i"
    "find_pos (matches d t) (slots[i := book_file b (slots ! i)]) = Some i"
    by (simp_all add: find_pos_update)
  from i show "booked ((slots[i := book b (slots ! i)]) ! i)"
    "booked ((slots[i := book_file b (slots ! i)]) ! i)"
    by (simp_all add: book_def book_file_def)
qed

lemma confirm_db_twice:
  assumes "find_pos (matches_db (body_date b) (body_time b)) coll = Some i"
    and "\<not> booked (coll ! i)"
    and "matches_db (body_date b') (body_time b') = matches_db (body_date b) (body_time b)"
  shows "answer (confirm_db mailer' cfg b' (stored (confirm_db mailer cfg b coll)))
       = (400, Error Creneau_indisponible)
     \<and> stored (confirm_db mailer' cfg b' (stored (confirm_db mailer cfg b coll)))
       = stored (confirm_db mailer cfg b coll)"
proof -
  from assms(1) have m: "find_pos (matches (bson_field (body_date b)) (bson_field (body_time b)))
      coll = Some i"
    by (simp add: matches_db_def)
  from find_pos_booked(1,2) [OF m, of b] assms(3)
  have "\<exists>j. find_pos (matches_db (body_date b') (body_time b')) (coll[i := book b (coll ! i)])
      = Some j \<and> booked (coll[i := book b (coll ! i)] ! j)"
    by (simp add: matches_db_def)
  then show ?thesis
    using confirm_db_refused [of b' "coll[i := book b (coll ! i)]" mailer' cfg]
      confirm_free(1) [OF assms(1,2), of mailer cfg]
    by simp
qed

lemma confirm_file_twice:
  assumes "find_pos (matches (body_date b) (body_time b)) slots = Some i"
    and "\<not> booked (slots ! i)"
    and "body_date b' = body_date b" "body_time b' = body_time b"
  shows "answer (confirm_file mailer' b' (stored (confirm_file mailer b slots)))
       = (400, Error Creneau_indisponible)
     \<and> stored (confirm_file mailer' b' (stored (confirm_file mailer b slots)))
       = stored (confirm_file mailer b slots)"
proof -
  from find_pos_booked(3,4) [OF assms(1), of b] assms(3,4)
  have "\<exists>j. find_pos (matches (body_date b') (body_time b')) (slots[i := book_file b (slots ! i)])
      = Some j \<and> booked (slots[i := book_file b (slots ! i)] ! j)"
    by simp
  then show ?thesis
    using confirm_file_refused [of b' "slots[i := book_file b (slots ! i)]" mailer']
      confirm_free(2) [OF assms(1,2), of mailer]
    by simp
qed

text \<open>
  A first name that is a lone surrogate is saved by the database server as U+FFFD, and
  by the file server as it is.
\<close>

lemma confirm_lone_surrogate:
  "map (map_option firstName \<circ> client) (stored (confirm_db (\<lambda>m. True) cfg0 lone [slot0]))
     = [Some (Some [CHR 0xEF, CHR 0xBF, CHR 0xBD])]"
  "map (map_option firstName \<circ> client) (stored (confirm_file (\<lambda>m. True) lone [slot0]))
     = [Some (Some [CHR 0xED, CHR 0xA0, CHR 0x80])]"
  by (simp_all add: confirm_db_def confirm_file_def lone_def slot0_def new_slot_def
      matches_db_def matches_def bson_field_def bson_well_formed book_def book_file_def
      saved_client_def client_of_def Let_def)

text \<open>
  Claim C1. A \<^verbatim>\<open>/confirm\<close> request with a date and a time and no client field, on the
  free slot of that key: the database server answers 200 \<^verbatim>\<open>{ success: true }\<close> and saves
  the slot booked with no client, where the claim has the client set to the record of the
  request and the file server stores that record. With the client of scenario A both store
  it.
\<close>

theorem confirm_db_without_client:
  "answer (confirm_db (\<lambda>m. True) cfg0 anon [slot0]) = (200, Success)
   \<and> stored (confirm_db (\<lambda>m. True) cfg0 anon [slot0]) =
       [\<lparr>date = Some ''2024-05-01'', time = Some ''10:00'', booked = True, client = None\<rparr>]
   \<and> stored (confirm_file (\<lambda>m. True) anon [slot0]) =
       [\<lparr>date = Some ''2024-05-01'', time = Some ''10:00'', booked = True,
         client = Some \<lparr>firstName = None, lastName = None, email = None,
                        service = None\<rparr>\<rparr>]
   \<and> stored (confirm_db (\<lambda>m. True) cfg0 ana [slot0]) =
       [\<lparr>date = Some ''2024-05-01'', time = Some ''10:00'', booked = True,
         client = Some \<lparr>firstName = Some ''Ana'', lastName = Some ''B'',
                        email = Some ''a@b.com'', service = Some ''Manicure''\<rparr>\<rparr>]"
  by (simp add: confirm_db_def confirm_file_def anon_def ana_def slot0_def new_slot_def
      matches_db_def matches_def bson_field_def bson_well_formed book_def book_file_def
      saved_client_def client_of_def notify_def truthy_def Let_def)

section \<open>Booked exactly when a client is recorded\<close>

lemma list_all_update: "list_all P xs \<Longrightarrow> P y \<Longrightarrow> list_all P (xs[k := y])"
  unfolding list_all_iff using set_update_subset_insert [of xs k y] by auto

lemma list_all_deleteOne: "list_all Q xs \<Longrightarrow> list_all Q (deleteOne P xs)"
  by (induction xs) auto

lemma serve_preserves:
  assumes "\<And>r slots. r \<in> set rs \<Longrightarrow> I slots \<Longrightarrow> I (stored (h r slots))"
  shows "I slots \<Longrightarrow> I (serve h rs slots)"
  using assms by (induction rs arbitrary: slots) simp_all

text \<open>The file server keeps the invariant, whatever it is asked.\<close>

lemma booked_iff_client_handle_file:
  assumes "booked_iff_client slots"
  shows "booked_iff_client (stored (handle_file stripe mailer cfg r slots))"
proof (cases r)
  case (Post_confirm b)
  with assms show ?thesis
    unfolding booked_iff_client_def
    by (auto simp: confirm_file_def reply_def Let_def book_file_def
        intro!: list_all_update split: option.splits)
next
  case (Post_admin_add_slot a b)
  with assms show ?thesis
    by (simp add: add_slot_file_def reply_def booked_iff_client_def new_slot_def)
next
  case (Post_admin_delete_slot a b)
  with assms show ?thesis
    by (simp add: delete_slot_file_def reply_def booked_iff_client_def list_all_iff)
next
  case (Post_create_checkout b)
  with assms show ?thesis
    by (simp add: create_checkout_file_def ask_stripe_def split: option.splits)
qed (use assms in \<open>simp_all add: calendar_file_def admin_reservations_file_def reply_def\<close>)

lemma booked_iff_client_file:
  assumes "booked_iff_client slots"
  shows "booked_iff_client (serve (handle_file stripe mailer cfg) rs slots)"
  using assms by (rule serve_preserves [rotated]) (rule booked_iff_client_handle_file)

text \<open>
  The database server keeps it as long as every confirmation names a client, and keeps
  one half of it always: a slot with a client is booked.
\<close>

lemma handle_db_stored:
  "stored (handle_db stripe mailer cfg r coll) = coll
   \<or> (\<exists>b i. r = Post_confirm b \<and> i < length coll
         \<and> stored (handle_db stripe mailer cfg r coll) = coll[i := book b (coll ! i)])
   \<or> (\<exists>a b. r = Post_admin_add_slot a b
         \<and> stored (handle_db stripe mailer cfg r coll)
             = coll @ [new_slot (bson_field (body_date b)) (bson_field (body_time b))])
   \<or> (\<exists>a b. r = Post_admin_delete_slot a b
         \<and> stored (handle_db stripe mailer cfg r coll)
             = deleteOne (matches_db (body_date b) (body_time b)) coll)"
proof (cases r)
  case (Post_confirm b)
  show ?thesis
  proof (cases "find_pos (matches_db (body_date b) (body_time b)) coll")
    case None
    with Post_confirm show ?thesis by (simp add: confirm_db_def reply_def)
  next
    case (Some i)
    with find_pos_Some [OF Some] Post_confirm show ?thesis
      by (auto simp: confirm_db_def reply_def Let_def)
  qed
next
  case (Post_admin_add_slot a b)
  then show ?thesis
    by (auto simp: add_slot_db_def reply_def create_def split: option.splits if_splits)
next
  case (Post_admin_delete_slot a b)
  then show ?thesis by (simp add: delete_slot_db_def reply_def)
next
  case (Post_create_checkout b)
  then show ?thesis
    by (simp add: create_checkout_db_def ask_stripe_def reply_def split: option.splits)
qed (simp_all add: calendar_db_def admin_reservations_db_def reply_def)

lemma booked_iff_client_db:
  assumes "booked_iff_client coll"
    and "\<And>b. Post_confirm b \<in> set rs \<Longrightarrow> saved_client b \<noteq> None"
  shows "booked_iff_client (serve (handle_db stripe mailer cfg) rs coll)"
  using assms(1)
proof (rule serve_preserves [rotated])
  fix r slots
  assume r: "r \<in> set rs" and inv: "booked_iff_client slots"
  from handle_db_stored [of stripe mailer cfg r slots] r inv assms(2)
  show "booked_iff_client (stored (handle_db stripe mailer cfg r slots))"
    unfolding booked_iff_client_def
    by (auto simp: book_def new_slot_def intro!: list_all_update list_all_deleteOne)
qed

lemma client_is_booked_db:
  assumes "list_all (\<lambda>s. client s = None \<or> booked s) coll"
  shows "list_all (\<lambda>s. client s = None \<or> booked s) (serve (handle_db stripe mailer cfg) rs coll)"
  using assms
proof (rule serve_preserves [rotated])
  fix r and slots :: "slot list"
  assume "list_all (\<lambda>s. client s = None \<or> booked s) slots"
  with handle_db_stored [of stripe mailer cfg r slots]
  show "list_all (\<lambda>s. client s = None \<or> booked s) (stored (handle_db stripe mailer cfg r slots))"
    by (auto simp: book_def new_slot_def intro!: list_all_update list_all_deleteOne)
qed

text \<open>
  Claim C5. After \<^verbatim>\<open>/admin/add-slot\<close> and a \<^verbatim>\<open>/confirm\<close> that names no client, the
  database server holds a slot that is booked and has no client: the invariant is lost.
  The file server holds it booked with an empty client record, and keeps the invariant.
\<close>

theorem booked_without_client_db:
  "serve (handle_db stripe_ok (\<lambda>m. True) cfg0)
     [Post_admin_add_slot (Some ''Maha123@'') anon, Post_confirm anon] []
     = [\<lparr>date = Some ''2024-05-01'', time = Some ''10:00'', booked = True, client = None\<rparr>]
   \<and> \<not> booked_iff_client (serve (handle_db stripe_ok (\<lambda>m. True) cfg0)
         [Post_admin_add_slot (Some ''Maha123@'') anon, Post_confirm anon] [])
   \<and> serve (handle_file stripe_ok (\<lambda>m. True) cfg0)
     [Post_admin_add_slot (Some ''Maha123@'') anon, Post_confirm anon] []
     = [\<lparr>date = Some ''2024-05-01'', time = Some ''10:00'', booked = True,
         client = Some \<lparr>firstName = None, lastName = None, email = None,
                        service = None\<rparr>\<rparr>]
   \<and> booked_iff_client (serve (handle_file stripe_ok (\<lambda>m. True) cfg0)
         [Post_admin_add_slot (Some ''Maha123@'') anon, Post_confirm anon] [])"
  by (simp add: add_slot_db_def add_slot_file_def confirm_db_def confirm_file_def create_def
      reply_def cfg0_def anon_def falsy_def matches_db_def matches_def bson_field_def
      bson_well_formed new_slot_def book_def book_file_def saved_client_def client_of_def
      notify_def truthy_def booked_iff_client_def Let_def)

lemma serve_scenario_A:
  "serve (handle_db (\<lambda>p. None) (\<lambda>m. True) cfg0)
     [Post_admin_add_slot (Some ''Maha123@'') ana, Post_confirm ana, Post_confirm ana] []
   = [book ana slot0]"
  "serve (handle_file (\<lambda>p. None) (\<lambda>m. True) cfg0)
     [Post_admin_add_slot (Some ''Maha123@'') ana, Post_confirm ana, Post_confirm ana] []
   = [book_file ana slot0]"
  by (simp_all add: add_slot_db_def add_slot_file_def confirm_db_def confirm_file_def
      create_def reply_def cfg0_def ana_def falsy_def matches_db_def matches_def
      bson_field_def bson_well_formed new_slot_def book_def book_file_def saved_client_def
      client_of_def slot0_def Let_def)

section \<open>What the calendar shows\<close>

lemma mset_find_sorted: "mset (find_sorted coll) = mset coll"
  by (simp add: find_sorted_def)

lemma sorted_find_sorted: "sorted (map slot_key (find_sorted coll))"
  by (simp add: find_sorted_def)

lemma mset_update_changes:
  assumes "i < length xs" and "y \<noteq> xs ! i"
  shows "mset (xs[i := y]) \<noteq> mset xs"
proof
  assume eq: "mset (xs[i := y]) = mset xs"
  from assms(1) have m: "xs ! i \<in># mset xs" by simp
  from assms(1) have "mset (xs[i := y]) = add_mset y (mset xs - {#xs ! i#})"
    by (rule mset_update)
  with eq have "add_mset y (mset xs - {#xs ! i#}) = add_mset (xs ! i) (mset xs - {#xs ! i#})"
    using insert_DiffM [OF m] by simp
  then have "y = xs ! i" by simp
  with assms(2) show False by simp
qed

lemma find_sorted_update_changes:
  assumes "i < length coll" and "y \<noteq> coll ! i"
  shows "find_sorted (coll[i := y]) \<noteq> find_sorted coll"
proof
  assume "find_sorted (coll[i := y]) = find_sorted coll"
  then have "mset (find_sorted (coll[i := y])) = mset (find_sorted coll)" by simp
  then have "mset (coll[i := y]) = mset coll" by (simp only: mset_find_sorted)
  with mset_update_changes [OF assms] show False by simp
qed

lemma client_update_changes:
  "client s \<noteq> Some c \<Longrightarrow> s\<lparr>client := Some c\<rparr> \<noteq> s"
  by (cases s) auto

text \<open>
  Claim C10. \<^verbatim>\<open>GET /calendar\<close>, which reads no credential, answers with every stored slot
  in full, client record included: the same body as \<^verbatim>\<open>GET /admin/reservations\<close> gives
  to the holder of the password. Two stores that differ only in the client of one booked
  slot get different answers from \<^verbatim>\<open>/calendar\<close>. Both servers.
\<close>

theorem calendar_discloses_clients:
  "answer (calendar_db coll) =
     answer (admin_reservations_db cfg (Some (ADMIN_PASSWORD cfg)) coll)
   \<and> answer (calendar_file coll) =
     answer (admin_reservations_file cfg (Some (ADMIN_PASSWORD cfg)) coll)
   \<and> answer (calendar_file coll) = (200, Slots coll)
   \<and> (\<exists>xs. answer (calendar_db coll) = (200, Slots xs) \<and> mset xs = mset coll)
   \<and> (i < length coll \<and> booked (coll ! i) \<and> client (coll ! i) \<noteq> Some c \<longrightarrow>
        answer (calendar_db (coll[i := (coll ! i)\<lparr>client := Some c\<rparr>]))
          \<noteq> answer (calendar_db coll)
        \<and> answer (calendar_file (coll[i := (coll ! i)\<lparr>client := Some c\<rparr>]))
          \<noteq> answer (calendar_file coll))"
proof (intro conjI impI)
  show "\<exists>xs. answer (calendar_db coll) = (200, Slots xs) \<and> mset xs = mset coll"
    by (simp add: calendar_db_def reply_def mset_find_sorted)
next
  assume a: "i < length coll \<and> booked (coll ! i) \<and> client (coll ! i) \<noteq> Some c"
  then have d: "(coll ! i)\<lparr>client := Some c\<rparr> \<noteq> coll ! i"
    by (simp add: client_update_changes)
  from a d show "answer (calendar_db (coll[i := (coll ! i)\<lparr>client := Some c\<rparr>]))
      \<noteq> answer (calendar_db coll)"
    by (simp add: calendar_db_def reply_def find_sorted_update_changes)
  from a d show "answer (calendar_file (coll[i := (coll ! i)\<lparr>client := Some c\<rparr>]))
      \<noteq> answer (calendar_file coll)"
    by (simp add: calendar_file_def reply_def list_update_same_conv)
qed (simp_all add: calendar_db_def calendar_file_def admin_reservations_db_def
      admin_reservations_file_def reply_def)

theorem calendar_discloses_clients_witness:
  "answer (calendar_db [(book ana slot0)\<lparr>client := Some (client_of bob)\<rparr>])
     \<noteq> answer (calendar_db [book ana slot0])
   \<and> answer (calendar_file [(book ana slot0)\<lparr>client := Some (client_of bob)\<rparr>])
     \<noteq> answer (calendar_file [book ana slot0])
   \<and> answer (calendar_file [book ana slot0]) = (200, Slots [book ana slot0])
   \<and> answer (calendar_db [book ana slot0]) = (200, Slots [book ana slot0])"
proof -
  have h: "0 < length [book ana slot0] \<and> booked ([book ana slot0] ! 0)
      \<and> client ([book ana slot0] ! 0) \<noteq> Some (client_of bob)"
    by (simp add: book_ana(1) client_of_def bob_def)
  have s: "answer (calendar_db [book ana slot0]) = (200, Slots [book ana slot0])"
    by (simp add: calendar_db_def reply_def find_sorted_def)
  have f: "answer (calendar_file [book ana slot0]) = (200, Slots [book ana slot0])"
    by (simp add: calendar_file_def reply_def)
  from calendar_discloses_clients [of "[book ana slot0]" cfg0 0 "client_of bob"] h
  have d: "answer (calendar_db ([book ana slot0]
          [0 := ([book ana slot0] ! 0)\<lparr>client := Some (client_of bob)\<rparr>]))
        \<noteq> answer (calendar_db [book ana slot0])
      \<and> answer (calendar_file ([book ana slot0]
          [0 := ([book ana slot0] ! 0)\<lparr>client := Some (client_of bob)\<rparr>]))
        \<noteq> answer (calendar_file [book ana slot0])"
    by blast
  have u: "[book ana slot0][0 := ([book ana slot0] ! 0)\<lparr>client := Some (client_of bob)\<rparr>]
      = [(book ana slot0)\<lparr>client := Some (client_of bob)\<rparr>]"
    by simp
  from d f s show ?thesis unfolding u by blast
qed

section \<open>Concurrent confirmations\<close>

text \<open>A job alone, run to its end, is the handler.\<close>

lemma confirm_db_as_job:
  "interleave step_confirm_db [0, 0, 0] ([Finding b], coll)
     = ([Answered (answer (confirm_db mailer cfg b coll))], stored (confirm_db mailer cfg b coll))"
  by (simp add: confirm_db_def reply_def Let_def split: option.splits)

lemma confirm_file_as_job:
  "interleave step_confirm_file [0, 0] ([Finding b], slots)
     = ([Answered (answer (confirm_file mailer b slots))], stored (confirm_file mailer b slots))"
  by (simp add: confirm_file_def reply_def Let_def split: option.splits)

text \<open>
  Claim C2. Two \<^verbatim>\<open>/confirm\<close> requests of the database server for the same free slot,
  the second lookup made before the first \<^verbatim>\<open>save()\<close>: both find the slot free, both
  save, both are answered 200 \<^verbatim>\<open>{ success: true }\<close>, and the slot keeps the client of the
  request that saved last. The claim asks for one success.
\<close>

theorem concurrent_confirms_db_both_succeed:
  "interleave step_confirm_db [0, 1, 0, 1, 0, 1] ([Finding ana, Finding bob], [slot0])
     = ([Answered (200, Success), Answered (200, Success)], [book bob slot0])
   \<and> successes
       (fst (interleave step_confirm_db [0, 1, 0, 1, 0, 1]
               ([Finding ana, Finding bob], [slot0]))) = 2"
  by (simp add: ana_def bob_def slot0_def new_slot_def matches_db_def matches_def
      bson_field_def bson_well_formed book_def saved_client_def truthy_def successes_def)

text \<open>One request after the other, the second is refused.\<close>

lemma successive_confirms_db_one_succeeds:
  "interleave step_confirm_db [0, 0, 0, 1, 1, 1] ([Finding ana, Finding bob], [slot0])
     = ([Answered (200, Success), Answered (400, Error Creneau_indisponible)], [book ana slot0])"
  by (simp add: ana_def bob_def slot0_def new_slot_def matches_db_def matches_def
      bson_field_def bson_well_formed book_def saved_client_def truthy_def)

text \<open>The same two requests at the file server, in the same order.\<close>

lemma concurrent_confirms_file_one_succeeds:
  "interleave step_confirm_file [0, 1, 0, 1] ([Finding ana, Finding bob], [slot0])
     = ([Answered (200, Success), Answered (400, Error Creneau_indisponible)],
        [book_file ana slot0])"
  by (simp add: ana_def bob_def slot0_def new_slot_def matches_def book_file_def truthy_def)

section \<open>Concurrent confirmations at the file server\<close>

text \<open>
  The file server, for any number of requests on one free slot and any schedule that
  answers them all: one request is answered 200, every other one 400.
\<close>

lemma filter_update_same:
  "k < length xs \<Longrightarrow> P y = P (xs ! k) \<Longrightarrow>
     length (filter P (xs[k := y])) = length (filter P xs)"
proof (induction xs arbitrary: k)
  case Nil
  then show ?case by simp
next
  case (Cons x xs)
  then show ?case by (cases k) auto
qed

lemma filter_update_first:
  "k < length xs \<Longrightarrow> list_all (\<lambda>x. \<not> P x) xs \<Longrightarrow> P y \<Longrightarrow>
     length (filter P (xs[k := y])) = 1"
proof (induction xs arbitrary: k)
  case Nil
  then show ?case by simp
next
  case (Cons x xs)
  show ?case
  proof (cases k)
    case 0
    from Cons.prems(2) have "filter P xs = []" by (simp add: list_all_iff filter_empty_conv)
    with 0 Cons.prems(3) show ?thesis by simp
  next
    case (Suc j)
    with Cons show ?thesis by simp
  qed
qed

lemma asks_not_winner: "asks d t x \<Longrightarrow> \<not> winner x"
  by (cases x) (simp_all add: asks_def winner_def)

lemma step_file_one_winner:
  assumes inv: "one_winner d t (jobs, slots)" and k: "k < length jobs"
  shows "one_winner d t
    (jobs[k := fst (step_confirm_file (jobs ! k) slots)],
     snd (step_confirm_file (jobs ! k) slots))"
proof -
  from inv obtain i where i: "find_pos (matches d t) slots = Some i"
    and all: "list_all (\<lambda>x. asks d t x \<or> winner x \<or> refused x) jobs"
    and st: "if booked (slots ! i) then length (filter winner jobs) = 1
             else list_all (asks d t) jobs"
    by (auto simp: one_winner_def split: option.splits if_splits)
  let ?x = "jobs ! k"
  from all k have x: "asks d t ?x \<or> winner ?x \<or> refused ?x"
    by (simp add: list_all_length)
  show ?thesis
  proof (cases ?x)
    case (Finding b)
    with x have key: "body_date b = d" "body_time b = t"
      by (simp_all add: asks_def winner_def refused_def)
    show ?thesis
    proof (cases "booked (slots ! i)")
      case True
      let ?y = "Answered (400, Error Creneau_indisponible)"
      from Finding key i True
      have s: "step_confirm_file ?x slots = (?y, slots)" by simp
      have "list_all (\<lambda>x. asks d t x \<or> winner x \<or> refused x) (jobs[k := ?y])"
        using all by (rule list_all_update) (simp add: refused_def)
      moreover have "length (filter winner (jobs[k := ?y])) = length (filter winner jobs)"
        using k Finding by (intro filter_update_same) (simp_all add: winner_def)
      ultimately show ?thesis
        using s i st True by (simp add: one_winner_def)
    next
      case False
      let ?y = "if truthy (body_email b) then Mailing b else Answered (200, Success)"
      let ?slots = "slots[i := book_file b (slots ! i)]"
      from Finding key i False
      have s: "step_confirm_file ?x slots = (?y, ?slots)" by simp
      have w: "winner ?y" by (simp add: winner_def)
      from st False have "list_all (asks d t) jobs" by simp
      then have "list_all (\<lambda>x. \<not> winner x) jobs"
        by (auto simp: list_all_iff dest: asks_not_winner)
      with k w have "length (filter winner (jobs[k := ?y])) = 1"
        by (intro filter_update_first)
      moreover have "list_all (\<lambda>x. asks d t x \<or> winner x \<or> refused x) (jobs[k := ?y])"
        using all w by (intro list_all_update) simp_all
      moreover note find_pos_booked(3,4) [OF i, of b]
      ultimately show ?thesis
        using s by (simp add: one_winner_def)
    qed
  next
    case (Mailing b)
    let ?y = "Answered (200, Success)"
    from Mailing have s: "step_confirm_file ?x slots = (?y, slots)" by simp
    have b: "booked (slots ! i)"
    proof (rule ccontr)
      assume "\<not> booked (slots ! i)"
      with st have "list_all (asks d t) jobs" by simp
      with k have "asks d t ?x" by (simp add: list_all_length)
      with Mailing show False by (simp add: asks_def)
    qed
    have "list_all (\<lambda>x. asks d t x \<or> winner x \<or> refused x) (jobs[k := ?y])"
      using all by (rule list_all_update) (simp add: winner_def)
    moreover have "length (filter winner (jobs[k := ?y])) = length (filter winner jobs)"
      using k Mailing by (intro filter_update_same) (simp_all add: winner_def)
    ultimately show ?thesis
      using s i st b by (simp add: one_winner_def)
  next
    case (Answered r)
    then have "step_confirm_file ?x slots = (?x, slots)" by simp
    with inv show ?thesis by simp
  next
    case (Saving b j s)
    with x show ?thesis by (simp add: asks_def winner_def refused_def)
  qed
qed

lemma interleave_file_one_winner:
  "one_winner d t (jobs, slots) \<Longrightarrow>
     one_winner d t (interleave step_confirm_file ks (jobs, slots))"
proof (induction ks arbitrary: jobs slots)
  case Nil
  then show ?case by simp
next
  case (Cons k ks)
  show ?case
  proof (cases "k < length jobs")
    case True
    from step_file_one_winner [OF Cons.prems True] True show ?thesis
      by (simp add: Cons.IH)
  next
    case False
    with Cons show ?thesis by simp
  qed
qed

lemma length_interleave:
  "length (fst (interleave step ks (jobs, slots))) = length jobs"
  by (induction ks arbitrary: jobs slots) simp_all

lemma concurrent_confirms_file:
  assumes free: "find_pos (matches d t) slots = Some i" "\<not> booked (slots ! i)"
    and start: "list_all (asks d t) jobs" "jobs \<noteq> []"
    and fin: "list_all answered (fst (interleave step_confirm_file ks (jobs, slots)))"
  shows "successes (fst (interleave step_confirm_file ks (jobs, slots))) = 1"
    and "length (filter refused (fst (interleave step_confirm_file ks (jobs, slots))))
           = length jobs - 1"
proof -
  let ?end = "interleave step_confirm_file ks (jobs, slots)"
  from free start(1) have "one_winner d t (jobs, slots)"
    by (simp add: one_winner_def list_all_iff)
  then have inv: "one_winner d t ?end" by (rule interleave_file_one_winner)
  then obtain j where j: "find_pos (matches d t) (snd ?end) = Some j"
    and all: "list_all (\<lambda>x. asks d t x \<or> winner x \<or> refused x) (fst ?end)"
    and st: "if booked (snd ?end ! j) then length (filter winner (fst ?end)) = 1
             else list_all (asks d t) (fst ?end)"
    by (auto simp: one_winner_def split: option.splits if_splits)
  have len: "length (fst ?end) = length jobs" by (rule length_interleave)
  with start(2) obtain x where x: "x \<in> set (fst ?end)"
    by (cases "fst ?end") auto
  have na: "\<not> asks d t y" if "answered y" for y
    using that by (cases y) (simp_all add: answered_def asks_def)
  from x fin have "answered x" by (simp add: list_all_iff)
  with x na have "\<not> list_all (asks d t) (fst ?end)" by (auto simp: list_all_iff)
  with st have one: "length (filter winner (fst ?end)) = 1" by (simp split: if_splits)
  have w: "winner y \<longleftrightarrow> y = Answered (200, Success)" if "answered y" for y
    using that by (cases y) (simp_all add: answered_def winner_def)
  have "filter winner (fst ?end) = filter (\<lambda>y. y = Answered (200, Success)) (fst ?end)"
    using fin w by (intro filter_cong) (auto simp: list_all_iff)
  with one show "successes (fst ?end) = 1" by (simp add: successes_def)
  have r: "refused y \<longleftrightarrow> \<not> winner y" if "y \<in> set (fst ?end)" for y
  proof -
    from that fin have a: "answered y" by (simp add: list_all_iff)
    from that all have "asks d t y \<or> winner y \<or> refused y" by (simp add: list_all_iff)
    with na [OF a] show ?thesis by (auto simp: refused_def winner_def)
  qed
  have "filter refused (fst ?end) = filter (\<lambda>y. \<not> winner y) (fst ?end)"
    using r by (intro filter_cong) auto
  moreover have "length (filter winner (fst ?end))
      + length (filter (\<lambda>y. \<not> winner y) (fst ?end)) = length (fst ?end)"
    by (rule sum_length_filter_compl)
  ultimately show "length (filter refused (fst ?end)) = length jobs - 1"
    using one len by simp
qed

section \<open>Asking for a payment session\<close>

lemma falsy_iff: "falsy v \<longleftrightarrow> \<not> truthy v"
  by (simp add: falsy_def truthy_def split: option.splits)

text \<open>
  The argument of the provider's call exists unless a value to escape holds a lone
  surrogate: one of the six values in the database server, the service in the file server.
\<close>

lemma those_None: "those xs = None \<longleftrightarrow> None \<in> set xs"
  by (induction xs) (auto split: option.splits)

lemma escaped_None:
  "escaped name v = None \<longleftrightarrow> lone_surrogate (str v)"
  "None = escaped name v \<longleftrightarrow> lone_surrogate (str v)"
  by (auto simp: escaped_def encodeURIComponent_def)


lemma checkout_params_file_None:
  "checkout_params_file cfg b = None \<longleftrightarrow> lone_surrogate (str (body_service b))"
  by (auto simp: checkout_params_file_def success_page_def those_None escaped_None raw_def
      simp del: those.simps)






text \<open>
  The database server tests its fields first: a missing or empty required field gives
  400 and no session; with the five present, the email decides nothing.
\<close>

lemma create_checkout_db_validates:
  assumes "falsy (body_date b) \<or> falsy (body_time b) \<or> falsy (body_firstName b)
      \<or> falsy (body_lastName b) \<or> falsy (body_service b)"
  shows "answer (create_checkout_db stripe cfg b coll) = (400, Error Donnees_manquantes)"
    and "sessions (create_checkout_db stripe cfg b coll) = []"
    and "stored (create_checkout_db stripe cfg b coll) = coll"
  using assms by (simp_all add: create_checkout_db_def reply_def)

lemma create_checkout_db_email_optional:
  assumes "truthy (body_date b)" "truthy (body_time b)" "truthy (body_firstName b)"
    "truthy (body_lastName b)" "truthy (body_service b)"
  shows "create_checkout_db stripe cfg b coll = ask_stripe stripe (checkout_params_db cfg b) coll"
    and "fst (answer (create_checkout_db stripe cfg b coll)) \<noteq> 400"
  using assms
  by (simp_all add: create_checkout_db_def falsy_iff ask_stripe_def split: option.splits)

text \<open>
  Claim C7. The file server has no test of its fields: with an empty body it asks the
  provider for a session, described as \<^verbatim>\<open>undefined | undefined \`a undefined\<close>, and
  returns its URL, where the database server answers 400 \<^verbatim>\<open>"Donn\'ees manquantes"\<close>.
\<close>

theorem create_checkout_file_no_validation:
  "answer (create_checkout_file stripe_ok cfg0 no_fields []) =
     (200, Url ''https://checkout.stripe.com/c/pay/cs_test'')
   \<and> map Some (sessions (create_checkout_file stripe_ok cfg0 no_fields [])) =
     [checkout_params_file cfg0 no_fields]
   \<and> map_option description (checkout_params_file cfg0 no_fields) =
     Some (''undefined | undefined '' @ [CHR 0xC3, CHR 0xA0] @ '' undefined'')
   \<and> create_checkout_db stripe_ok cfg0 no_fields [] = reply (400, Error Donnees_manquantes) []
   \<and> answer (create_checkout_db stripe_ok cfg0 no_fields []) = (400, Error Donnees_manquantes)
   \<and> sessions (create_checkout_db stripe_ok cfg0 no_fields []) = []"
proof -
  have "lone_surrogate (str (body_service no_fields)) = False"
    by (simp add: no_fields_def str_def)
  then obtain q where q: "checkout_params_file cfg0 no_fields = Some q"
    using checkout_params_file_None [of cfg0 no_fields] by auto
  then have d: "description q = ''undefined | undefined '' @ [CHR 0xC3, CHR 0xA0] @ '' undefined''"
    by (auto simp: checkout_params_file_def describe_def str_def no_fields_def)
  from q d show ?thesis
    by (simp add: create_checkout_file_def create_checkout_db_def ask_stripe_def stripe_ok_def
        reply_def) (simp add: no_fields_def falsy_def)
qed

section \<open>Adding a slot\<close>

text \<open>
  Claim C4. The file server appends the slot without looking for its key: adding the
  key of a stored slot answers 200 \<^verbatim>\<open>{ success: true }\<close> and the store then holds that key
  twice, where the database server answers 400 \<^verbatim>\<open>"Cr\'eneau d\'ej\`a existant"\<close> and keeps
  its store.
\<close>

theorem add_slot_file_duplicate:
  "add_slot_file cfg0 (Some ''Maha123@'') ana [slot0] = reply (200, Success) [slot0, slot0]
   \<and> findSlot (body_date ana) (body_time ana) [slot0] = Some slot0
   \<and> \<not> distinct (map slot_key [slot0, slot0])
   \<and> add_slot_db cfg0 (Some ''Maha123@'') ana [slot0] =
       reply (400, Error Creneau_deja_existant) [slot0]
   \<and> answer (add_slot_file cfg0 (Some ''Maha123@'') ana [slot0]) = (200, Success)
   \<and> stored (add_slot_file cfg0 (Some ''Maha123@'') ana [slot0]) = [slot0, slot0]
   \<and> answer (add_slot_db cfg0 (Some ''Maha123@'') ana [slot0]) =
       (400, Error Creneau_deja_existant)
   \<and> stored (add_slot_db cfg0 (Some ''Maha123@'') ana [slot0]) = [slot0]"
  by (simp add: add_slot_file_def add_slot_db_def create_def findSlot_def cfg0_def ana_def
      slot0_def new_slot_def matches_db_def matches_def bson_field_def bson_well_formed
      falsy_def reply_def)

text \<open>
  The database server: a key already stored is refused, whoever asks, and the store does
  not change; the keys of its collection stay distinct under every request.
\<close>

lemma add_slot_db_duplicate:
  assumes "find_pos (matches_db (body_date b) (body_time b)) coll \<noteq> None"
  shows "stored (add_slot_db cfg a b coll) = coll"
    and "fst (answer (add_slot_db cfg a b coll)) \<in> {400, 401}"
    and "a = Some (ADMIN_PASSWORD cfg) \<Longrightarrow> truthy (body_date b) \<Longrightarrow> truthy (body_time b) \<Longrightarrow>
           answer (add_slot_db cfg a b coll) = (400, Error Creneau_deja_existant)"
  using assms
  by (auto simp: add_slot_db_def create_def reply_def falsy_def truthy_def
      split: option.splits)

lemma slot_key_update_book:
  "i < length coll \<Longrightarrow> map slot_key (coll[i := book b (coll ! i)]) = map slot_key coll"
  by (simp add: map_update slot_key_def book_def list_update_same_conv)

lemma distinct_map_deleteOne:
  "distinct (map f xs) \<Longrightarrow> distinct (map f (deleteOne P xs))"
proof (induction xs)
  case Nil
  then show ?case by simp
next
  case (Cons x xs)
  have "set (deleteOne P xs) \<subseteq> set xs" by (induction xs) auto
  with Cons show ?case by auto
qed

lemma distinct_keys_create:
  assumes "distinct (map slot_key coll)" and "create d t coll = Some coll'"
  shows "distinct (map slot_key coll')"
proof -
  from assms(2) have n: "find_pos (matches_db d t) coll = None"
    and c: "coll' = coll @ [new_slot (bson_field d) (bson_field t)]"
    by (auto simp: create_def split: if_splits)
  from n have "(bson_field d, bson_field t) \<notin> slot_key ` set coll"
    by (auto simp: find_pos_None matches_db_def matches_def slot_key_def)
  with assms(1) c show ?thesis
    by (simp add: slot_key_def new_slot_def)
qed

lemma distinct_keys_db:
  assumes "distinct (map slot_key coll)"
  shows "distinct (map slot_key (stored (handle_db stripe mailer cfg r coll)))"
proof (cases r)
  case (Post_confirm b)
  show ?thesis
  proof (cases "find_pos (matches_db (body_date b) (body_time b)) coll")
    case None
    with assms Post_confirm show ?thesis by (simp add: confirm_db_def reply_def)
  next
    case (Some i)
    with find_pos_Some [OF Some] assms Post_confirm show ?thesis
      by (simp add: confirm_db_def reply_def Let_def slot_key_update_book)
  qed
next
  case (Post_admin_add_slot a b)
  with assms show ?thesis
    by (auto simp: add_slot_db_def reply_def dest: distinct_keys_create split: option.splits)
next
  case (Post_admin_delete_slot a b)
  with assms show ?thesis
    by (simp add: delete_slot_db_def reply_def distinct_map_deleteOne)
next
  case (Post_create_checkout b)
  with assms show ?thesis
    by (simp add: create_checkout_db_def ask_stripe_def reply_def split: option.splits)
qed (use assms in \<open>simp_all add: calendar_db_def admin_reservations_db_def reply_def\<close>)

section \<open>Listing the slots\<close>

text \<open>
  The order of the keys is by date, then by time. The database server lists the stored
  slots, all of them, in that order.
\<close>

lemma slot_key_le:
  "slot_key a \<le> slot_key b \<longleftrightarrow> date a < date b \<or> date a = date b \<and> time a \<le> time b"
  by (auto simp: slot_key_def)

lemma list_slots_db_sorted:
  "answer (calendar_db coll) = (200, Slots (find_sorted coll))"
  "answer (admin_reservations_db cfg (Some (ADMIN_PASSWORD cfg)) coll)
     = (200, Slots (find_sorted coll))"
  "sorted (map slot_key (find_sorted coll))"
  "mset (find_sorted coll) = mset coll"
  by (simp_all add: calendar_db_def admin_reservations_db_def reply_def find_sorted_def)

text \<open>
  Claim C6. The file server answers \<^verbatim>\<open>/calendar\<close> and \<^verbatim>\<open>/admin/reservations\<close> with
  \<^verbatim>\<open>data.slots\<close> as stored, in the order of insertion: after adding 2024-05-02 and then
  2024-05-01, the later date comes first. The database server sorts the same store.
\<close>

theorem calendar_file_insertion_order:
  "serve (handle_file stripe_ok (\<lambda>m. True) cfg0)
     [Post_admin_add_slot (Some ''Maha123@'') (ana\<lparr>body_date := Some ''2024-05-02''\<rparr>),
      Post_admin_add_slot (Some ''Maha123@'') ana] [] = [slot1, slot0]
   \<and> answer (calendar_file [slot1, slot0]) = (200, Slots [slot1, slot0])
   \<and> answer (admin_reservations_file cfg0 (Some ''Maha123@'') [slot1, slot0])
       = (200, Slots [slot1, slot0])
   \<and> slot_key slot0 < slot_key slot1
   \<and> \<not> sorted (map slot_key [slot1, slot0])
   \<and> answer (calendar_db [slot1, slot0]) = (200, Slots [slot0, slot1])"
  by (simp add: add_slot_file_def calendar_file_def admin_reservations_file_def
      calendar_db_def find_sorted_def reply_def cfg0_def ana_def slot0_def slot1_def
      new_slot_def slot_key_def)

section \<open>The session asked of the provider\<close>

text \<open>
  An escaped value holds unreserved characters, \<^verbatim>\<open>%\<close> and hexadecimal digits only,
  hence no separator of a query string. The database server escapes every value of the
  success URL.
\<close>

lemma hexdigit_in: "hexdigit n \<in> set ''0123456789ABCDEF''"
proof -
  have "n mod 16 < length ''0123456789ABCDEF''" by simp
  then show ?thesis unfolding hexdigit_def by (rule nth_mem)
qed

lemma escape_chars:
  "c' \<in> set (escape c) \<Longrightarrow> unreserved c' \<or> c' \<in> set ''%0123456789ABCDEF''"
  using hexdigit_in [of "of_char c div 16"] hexdigit_in [of "of_char c mod 16"]
  by (auto simp: escape_def split: if_splits)

lemma encodeURIComponent_chars:
  "encodeURIComponent v = Some e \<Longrightarrow> c \<in> set e \<Longrightarrow>
     unreserved c \<or> c \<in> set ''%0123456789ABCDEF''"
proof -
  assume "encodeURIComponent v = Some e" and c: "c \<in> set e"
  then have "e = concat (map escape (str v))"
    by (simp add: encodeURIComponent_def split: if_splits)
  with c obtain x where "c \<in> set (escape x)" by auto
  then show ?thesis by (rule escape_chars)
qed

lemma encodeURIComponent_no_separator:
  assumes "encodeURIComponent v = Some e"
  shows "CHR ''&'' \<notin> set e" "CHR ''='' \<notin> set e" "CHR ''#'' \<notin> set e" "CHR '' '' \<notin> set e"
  using encodeURIComponent_chars [OF assms] by (auto simp: unreserved_def)

lemma checkout_params_db_fields:
  assumes "checkout_params_db cfg b = Some p"
  shows "unit_amount p = 1000" "currency p = ''eur''" "description p = describe b"
    "cancel_url p = FRONTEND_URL cfg @ ''/booking.html''"
    "\<exists>d t sv fn ln em.
       encodeURIComponent (body_date b) = Some d \<and> encodeURIComponent (body_time b) = Some t
       \<and> encodeURIComponent (body_service b) = Some sv
       \<and> encodeURIComponent (body_firstName b) = Some fn
       \<and> encodeURIComponent (body_lastName b) = Some ln
       \<and> encodeURIComponent (or_empty (body_email b)) = Some em
       \<and> success_url p =
           FRONTEND_URL cfg @ ''/success.html?date='' @ d @ ''&time='' @ t
             @ ''&service='' @ sv @ ''&firstName='' @ fn @ ''&lastName='' @ ln
             @ ''&email='' @ em"
  using assms
  by (auto simp: checkout_params_db_def success_page_def escaped_def
      split: option.splits)

lemma checkout_params_file_fields:
  assumes "checkout_params_file cfg b = Some p"
  shows "unit_amount p = 1000" "currency p = ''eur''" "description p = describe b"
    "cancel_url p = FRONTEND_URL cfg @ ''/booking.html''"
  using assms by (auto simp: checkout_params_file_def)

lemma success_url_db_anne:
  "map_option success_url (checkout_params_db cfg0 anne) =
     Some (''http://localhost:5500/success.html?date=2024-05-01&time=10%3A00''
       @ ''&service=Manicure%20%26%20Spa&firstName=Anne%20Marie&lastName=B%26C''
       @ ''&email=a%2Bb%40c.com'')"
  by (simp add: checkout_params_db_def success_page_def escaped_def cfg0_def anne_def
      encodeURIComponent_def str_def or_empty_def truthy_def escape_def unreserved_def
      hexdigit_def option.map_comp comp_def)

text \<open>
  Claim C8. The file server escapes the service alone: date, time, first name, last name
  and email enter the success URL as they are, so that a last name \<^verbatim>\<open>B&C\<close> splits the
  query string.
\<close>

theorem success_url_file_not_encoded:
  "answer (create_checkout_file stripe_ok cfg0 anne []) =
     (200, Url ''https://checkout.stripe.com/c/pay/cs_test'')
   \<and> map Some (sessions (create_checkout_file stripe_ok cfg0 anne [])) =
     [checkout_params_file cfg0 anne]
   \<and> map_option success_url (checkout_params_file cfg0 anne) =
     Some (''http://localhost:5500/success.html?date=2024-05-01&time=10:00''
       @ ''&service=Manicure%20%26%20Spa&firstName=Anne Marie&lastName=B&C''
       @ ''&email=a+b@c.com'')
   \<and> encodeURIComponent (body_lastName anne) = Some ''B%26C''
   \<and> encodeURIComponent (body_firstName anne) = Some ''Anne%20Marie''"
proof -
  have u: "map_option success_url (checkout_params_file cfg0 anne) =
     Some (''http://localhost:5500/success.html?date=2024-05-01&time=10:00''
       @ ''&service=Manicure%20%26%20Spa&firstName=Anne Marie&lastName=B&C''
       @ ''&email=a+b@c.com'')"
    by (simp add: checkout_params_file_def success_page_def escaped_def raw_def cfg0_def
        anne_def encodeURIComponent_def str_def or_empty_def truthy_def escape_def
        unreserved_def hexdigit_def option.map_comp comp_def)
  then obtain q where q: "checkout_params_file cfg0 anne = Some q" by auto
  have e: "encodeURIComponent (body_lastName anne) = Some ''B%26C''"
    "encodeURIComponent (body_firstName anne) = Some ''Anne%20Marie''"
    by (simp_all add: anne_def encodeURIComponent_def str_def escape_def unreserved_def
        hexdigit_def)
  from q have "answer (create_checkout_file stripe_ok cfg0 anne []) =
       (200, Url ''https://checkout.stripe.com/c/pay/cs_test'')"
    "map Some (sessions (create_checkout_file stripe_ok cfg0 anne [])) =
       [checkout_params_file cfg0 anne]"
    by (simp_all add: create_checkout_file_def ask_stripe_def stripe_ok_def)
  with u e show ?thesis by simp
qed

end
